theory Spec2Isabelle
  imports Complex_Main "HOL-Library.AList"
begin

section \<open>Python values\<close>

text \<open>
  The values that \<open>response.json()\<close> can produce, and that the service passes around as
  request parameters, error payloads and attributes of forge objects. \<open>JNull\<close> is Python's
  \<open>None\<close>. A dict is an association list in insertion order, read with \<open>map_of\<close>.
  \<open>JFloat\<close> holds the finite floats; the non-finite ones which Python's decoder also
  accepts are truthy and not iterable, like \<open>JFloat 1\<close>.
\<close>

datatype json =
    JNull
  | JBool bool
  | JInt int
  | JFloat rat
  | JStr string
  | JArr "json list"
  | JObj "(string \<times> json) list"

text \<open>The literal parts and the interpolated values of an f-string the code raises with.\<close>

datatype fpart = Lit string | Fmt json

type_synonym message = "fpart list"

text \<open>
  What \<open>self.session.request\<close> of the \<open>requests\<close> library can raise: a
  \<open>ConnectionError\<close> (or a subclass of it), or any other exception of the library.
\<close>

datatype requests_exception = ConnectionError string | RequestException string

text \<open>
  Modelled from the spec: the exception classes of \<open>ogr.exceptions\<close>, which are not part of
  the sources at hand. \<open>PagureAPIException\<close> is built from its positional arguments (the
  message and, for a transport failure, the underlying network error) and the keyword
  arguments \<open>pagure_error\<close> and \<open>pagure_response\<close>, both \<open>None\<close> by default.
  \<open>OgrException\<close> carries its message. The other constructors are the built-in exceptions
  that the Python operations used by the code raise.
\<close>

datatype exn =
    PagureAPIException (message: message) (network_error: "requests_exception option")
      (pagure_error: json) (pagure_response: json)
  | OgrException message
  | Requests requests_exception
  | KeyError json
  | IndexError
  | TypeError
  | AttributeError string
  | RecursionError

subsection \<open>Truth value, membership and subscription\<close>

fun truthy :: "json \<Rightarrow> bool" where
  "truthy JNull = False"
| "truthy (JBool b) = b"
| "truthy (JInt i) = (i \<noteq> 0)"
| "truthy (JFloat r) = (r \<noteq> 0)"
| "truthy (JStr s) = (s \<noteq> [])"
| "truthy (JArr xs) = (xs \<noteq> [])"
| "truthy (JObj kvs) = (kvs \<noteq> [])"

text \<open>The truth value of an \<open>Optional[str]\<close> argument.\<close>

fun truthy_str :: "string option \<Rightarrow> bool" where
  "truthy_str None = False"
| "truthy_str (Some s) = (s \<noteq> [])"

fun startswith :: "string \<Rightarrow> string \<Rightarrow> bool" where
  "startswith ys [] = True"
| "startswith [] (x # xs) = False"
| "startswith (y # ys) (x # xs) = (x = y \<and> startswith ys xs)"

text \<open>\<open>str_contains s p\<close> is \<open>p in s\<close> for two strings.\<close>

fun str_contains :: "string \<Rightarrow> string \<Rightarrow> bool" where
  "str_contains [] p = (p = [])"
| "str_contains (y # ys) p = (startswith (y # ys) p \<or> str_contains ys p)"

text \<open>
  \<open>py_in k v\<close> is \<open>k in v\<close> for a string \<open>k\<close>: a key of a dict, an element of a list, a
  substring of a string; the other values are not iterable.
\<close>

fun py_in :: "string \<Rightarrow> json \<Rightarrow> exn + bool" where
  "py_in k (JObj kvs) = Inr (k \<in> set (map fst kvs))"
| "py_in k (JArr xs) = Inr (JStr k \<in> set xs)"
| "py_in k (JStr s) = Inr (str_contains s k)"
| "py_in k v = Inl TypeError"

text \<open>\<open>getitem_str v k\<close> is \<open>v[k]\<close> for a string \<open>k\<close>.\<close>

fun getitem_str :: "json \<Rightarrow> string \<Rightarrow> exn + json" where
  "getitem_str (JObj kvs) k =
     (case map_of kvs k of None \<Rightarrow> Inl (KeyError (JStr k)) | Some v \<Rightarrow> Inr v)"
| "getitem_str v k = Inl TypeError"

text \<open>\<open>getitem_int v i\<close> is \<open>v[i]\<close> for an integer \<open>i\<close>; a negative index counts from the end.\<close>

definition seq_index :: "'a list \<Rightarrow> int \<Rightarrow> exn + 'a" where
  "seq_index xs i =
     (if 0 \<le> i \<and> i < int (length xs) then Inr (xs ! nat i)
      else if i < 0 \<and> 0 \<le> int (length xs) + i then Inr (xs ! nat (int (length xs) + i))
      else Inl IndexError)"

fun getitem_int :: "json \<Rightarrow> int \<Rightarrow> exn + json" where
  "getitem_int (JArr xs) i = seq_index xs i"
| "getitem_int (JStr s) i =
     (case seq_index s i of Inl e \<Rightarrow> Inl e | Inr c \<Rightarrow> Inr (JStr [c]))"
| "getitem_int (JObj kvs) i = Inl (KeyError (JInt i))"
| "getitem_int v i = Inl TypeError"

text \<open>\<open>sep.join(xs)\<close>.\<close>

fun py_join :: "string \<Rightarrow> string list \<Rightarrow> string" where
  "py_join sep [] = []"
| "py_join sep [x] = x"
| "py_join sep (x # y # ys) = x @ sep @ py_join sep (y # ys)"

section \<open>The HTTP layer\<close>

text \<open>The keyword arguments of one \<open>session.request\<close> call.\<close>

record request =
  req_method :: string
  req_url :: string
  req_params :: json
  req_headers :: "(string \<times> string) list"
  req_data :: json
  req_verify :: bool

text \<open>
  What \<open>response.json()\<close> does with the body: it returns the decoded value, or raises
  \<open>ValueError\<close> (the decoder's error for a body that is not JSON), or raises something
  else, as the decoder does with \<open>RecursionError\<close> on a body nested too deeply.
\<close>

datatype json_outcome = Decoded json | ValueError | Raises exn

text \<open>
  The \<open>requests.Response\<close> that comes back; \<open>resp_json\<close> is the outcome of
  \<open>response.json()\<close> on it.
\<close>

record http_response =
  resp_status_code :: int
  resp_ok :: bool
  resp_content :: string
  resp_json :: json_outcome
  resp_reason :: string

text \<open>
  The \<open>requests\<close> library derives \<open>Response.ok\<close> from the status code: it is false
  exactly for the statuses from 400 to 599.
\<close>

definition requests_ok :: "http_response \<Rightarrow> bool" where
  "requests_ok r = (resp_ok r = (\<not> (400 \<le> resp_status_code r \<and> resp_status_code r < 600)))"

text \<open>The session: what the network answers to a request.\<close>

type_synonym session = "request \<Rightarrow> requests_exception + http_response"

text \<open>
  Modelled from the spec: the raw response wrapper \<open>RequestResponse\<close> of \<open>ogr.utils\<close>,
  which is not part of the sources at hand: status code, ok flag, raw bytes, decoded JSON
  (optional), reason string.
\<close>

record RequestResponse =
  status_code :: int
  ok :: bool
  content :: string
  json_content :: json
  reason :: string

section \<open>PagureService\<close>

record PagureService =
  instance_url :: string
  token :: "string option"
  read_only :: bool
  insecure :: bool
  header :: "(string \<times> string) list"

text \<open>The constructor; the session it mounts the retry adapter on is the \<open>session\<close> argument
  of the operations below.\<close>

definition PagureService_init :: "string option \<Rightarrow> string \<Rightarrow> bool \<Rightarrow> bool \<Rightarrow> PagureService" where
  "PagureService_init tok url ro insec =
     \<lparr>instance_url = url, token = tok, read_only = ro, insecure = insec,
      header = (case tok of
                  None \<Rightarrow> []
                | Some t \<Rightarrow> if t \<noteq> [] then [(''Authorization'', ''token '' @ t)] else [])\<rparr>"

text \<open>
  An operation returns what it returns or raises, and the requests it has sent.
\<close>

type_synonym 'a outcome = "(exn + 'a) \<times> request list"

definition get_raw_request ::
  "PagureService \<Rightarrow> session \<Rightarrow> string \<Rightarrow> string \<Rightarrow> json \<Rightarrow> json \<Rightarrow>
   (string \<times> string) list option \<Rightarrow> RequestResponse outcome" where
  "get_raw_request self session url method params data hdr =
     (let req = \<lparr>req_method = method, req_url = url, req_params = params,
                 req_headers = (case hdr of
                                  None \<Rightarrow> header self
                                | Some h \<Rightarrow> if h \<noteq> [] then h else header self),
                 req_data = data, req_verify = (\<not> insecure self)\<rparr>
      in (case session req of
            Inl e \<Rightarrow> Inl (Requests e)
          | Inr response \<Rightarrow>
              (case (case resp_json response of
                       Decoded j \<Rightarrow> Inr j
                     | ValueError \<Rightarrow> Inr JNull
                     | Raises e \<Rightarrow> Inl e) of
                 Inl e \<Rightarrow> Inl e
               | Inr json_output \<Rightarrow>
                   Inr \<lparr>status_code = resp_status_code response, ok = resp_ok response,
                        content = resp_content response, json_content = json_output,
                        reason = resp_reason response\<rparr>),
          [req]))"

definition call_api_raw ::
  "PagureService \<Rightarrow> session \<Rightarrow> string \<Rightarrow> string option \<Rightarrow> json \<Rightarrow> json \<Rightarrow>
   RequestResponse outcome" where
  "call_api_raw self session url method params data =
     (let method' = (if truthy_str method then the method else ''GET'');
          (result, sent) = get_raw_request self session url method' params data None
      in (case result of
            Inl (Requests (ConnectionError err)) \<Rightarrow>
              Inl (PagureAPIException [Lit (''Cannot connect to url: `'' @ url @ ''`.'')]
                     (Some (ConnectionError err)) JNull JNull)
          | Inl e \<Rightarrow> Inl e
          | Inr response \<Rightarrow> Inr response,
          sent))"

definition call_api ::
  "PagureService \<Rightarrow> session \<Rightarrow> string \<Rightarrow> string option \<Rightarrow> json \<Rightarrow> json \<Rightarrow> json outcome" where
  "call_api self session url method params data =
     (let (result, sent) = call_api_raw self session url method params data
      in (case result of
            Inl e \<Rightarrow> Inl e
          | Inr response \<Rightarrow>
              if status_code response = 404 then
                (case (if truthy (json_content response)
                       then py_in ''error'' (json_content response) else Inr False) of
                   Inl e \<Rightarrow> Inl e
                 | Inr has_error \<Rightarrow>
                     (case (if has_error then getitem_str (json_content response) ''error''
                            else Inr JNull) of
                        Inl e \<Rightarrow> Inl e
                      | Inr error_msg \<Rightarrow>
                          Inl (PagureAPIException
                                 [Lit (''Page `'' @ url @ ''` not found when calling Pagure API.'')]
                                 None error_msg JNull)))
              else if \<not> truthy (json_content response) then
                Inl (PagureAPIException [Lit ''Error while decoding JSON: {0}''] None JNull JNull)
              else if \<not> ok response then
                (case py_in ''error'' (json_content response) of
                   Inl e \<Rightarrow> Inl e
                 | Inr has_error \<Rightarrow>
                     if has_error then
                       (case getitem_str (json_content response) ''error'' of
                          Inl e \<Rightarrow> Inl e
                        | Inr error_msg \<Rightarrow>
                            Inl (PagureAPIException
                                   [Lit (''Pagure API returned an error when calling `'' @ url @ ''`: ''),
                                    Fmt error_msg]
                                   None error_msg (json_content response)))
                     else
                       Inl (PagureAPIException
                              [Lit (''Problem with Pagure API when calling `'' @ url @ ''`'')]
                              None JNull JNull))
              else Inr (json_content response),
          sent))"

definition api_url :: "PagureService \<Rightarrow> string" where
  "api_url self = instance_url self @ ''/api/0/''"

definition get_api_url :: "PagureService \<Rightarrow> string option list \<Rightarrow> bool \<Rightarrow> string" where
  "get_api_url self args add_api_endpoint_part =
     (let args_list = [] @ map the (filter (\<lambda>x. x \<noteq> None) args)
      in if add_api_endpoint_part then api_url self @ py_join ''/'' args_list
         else instance_url self @ ''/'' @ py_join ''/'' args_list)"

definition change_token :: "PagureService \<Rightarrow> string \<Rightarrow> PagureService" where
  "change_token self tok =
     self\<lparr>token := Some tok, header := [(''Authorization'', ''token '' @ tok)]\<rparr>"

text \<open>
  Modelled from the spec: the project handle \<open>PagureProject\<close> of
  \<open>ogr.services.pagure.project\<close>, which is not part of the sources at hand; it is built
  from the three arguments the service passes.
\<close>

record PagureProject =
  project_repo :: string
  project_namespace :: "string option"
  project_service :: PagureService

definition project_create ::
  "PagureService \<Rightarrow> session \<Rightarrow> string \<Rightarrow> string option \<Rightarrow> string option \<Rightarrow>
   PagureProject outcome" where
  "project_create self session repo namespace description =
     (let request_url = get_api_url self [Some ''new''] True;
          parameters = [(''name'', JStr repo),
                        (''description'', case description of None \<Rightarrow> JNull | Some d \<Rightarrow> JStr d),
                        (''wait'', JBool True)];
          parameters = (if \<not> truthy_str description
                        then AList.update ''description'' (JStr repo) parameters
                        else parameters);
          parameters = (if truthy_str namespace
                        then AList.update ''namespace'' (JStr (the namespace)) parameters
                        else parameters);
          (result, sent) = call_api self session request_url (Some ''POST'') JNull (JObj parameters)
      in (case result of
            Inl (PagureAPIException m c perr presp) \<Rightarrow>
              if truthy presp then
                (case getitem_str presp ''errors'' of
                   Inl e \<Rightarrow> Inl e
                 | Inr errors \<Rightarrow>
                     (case getitem_str errors ''namespace'' of
                        Inl e \<Rightarrow> Inl e
                      | Inr ns \<Rightarrow>
                          (case getitem_int ns 0 of
                             Inl e \<Rightarrow> Inl e
                           | Inr first \<Rightarrow>
                               if first = JStr ''Not a valid choice'' then
                                 Inl (OgrException
                                        [Lit (''Cannot create project in given namespace ('' @
                                              (case namespace of None \<Rightarrow> ''None'' | Some n \<Rightarrow> n) @
                                              '').'')])
                               else Inl (PagureAPIException m c perr presp))))
              else Inl (PagureAPIException m c perr presp)
          | Inl e \<Rightarrow> Inl e
          | Inr _ \<Rightarrow>
              Inr \<lparr>project_repo = repo, project_namespace = namespace, project_service = self\<rparr>,
          sent))"

section \<open>GitlabCommentParser\<close>

text \<open>
  A note object of the GitLab library is read through its attributes, kept here as the
  dictionary the library builds the object from; a missing attribute raises
  \<open>AttributeError\<close>.
\<close>

type_synonym raw_note = "(string \<times> json) list"

definition getattr :: "raw_note \<Rightarrow> string \<Rightarrow> exn + json" where
  "getattr obj name = (case map_of obj name of None \<Rightarrow> Inl (AttributeError name) | Some v \<Rightarrow> Inr v)"

text \<open>The attributes of the comment object that the parser assigns.\<close>

record GitlabComment =
  raw_comment :: "raw_note option"
  comment :: json
  author :: json
  created :: json
  edited :: json

text \<open>
  \<open>_from_raw_comment\<close>: the exception raised, if any, and the object as the assignments
  made before it have left it.
\<close>

definition from_raw_comment :: "GitlabComment \<Rightarrow> raw_note \<Rightarrow> exn option \<times> GitlabComment" where
  "from_raw_comment self raw =
     (let s0 = self\<lparr>raw_comment := Some raw\<rparr> in
      case getattr raw ''body'' of
        Inl e \<Rightarrow> (Some e, s0)
      | Inr body \<Rightarrow>
          (let s1 = s0\<lparr>comment := body\<rparr> in
           case getattr raw ''author'' of
             Inl e \<Rightarrow> (Some e, s1)
           | Inr a \<Rightarrow>
               (case getitem_str a ''username'' of
                  Inl e \<Rightarrow> (Some e, s1)
                | Inr username \<Rightarrow>
                    (let s2 = s1\<lparr>author := username\<rparr> in
                     case getattr raw ''created_at'' of
                       Inl e \<Rightarrow> (Some e, s2)
                     | Inr created_at \<Rightarrow>
                         (let s3 = s2\<lparr>created := created_at\<rparr> in
                          case getattr raw ''updated_at'' of
                            Inl e \<Rightarrow> (Some e, s3)
                          | Inr updated_at \<Rightarrow> (None, s3\<lparr>edited := updated_at\<rparr>))))))"

section \<open>The requests sent and the response received\<close>

text \<open>
  Every call sends one request; when the session answers it with a response, the raw call
  wraps that response.
\<close>

lemma get_raw_request_sent:
  "snd (get_raw_request self session url method params data hdr) =
     [\<lparr>req_method = method, req_url = url, req_params = params,
       req_headers = (case hdr of None \<Rightarrow> header self
                      | Some h \<Rightarrow> if h \<noteq> [] then h else header self),
       req_data = data, req_verify = (\<not> insecure self)\<rparr>]"
  by (simp add: get_raw_request_def Let_def)

lemma get_raw_request_response:
  assumes "snd (get_raw_request self session url method params data hdr) = [req]"
    and "session req = Inr r"
  shows "fst (get_raw_request self session url method params data hdr) =
     (case (case resp_json r of Decoded j \<Rightarrow> Inr j | ValueError \<Rightarrow> Inr JNull
            | Raises e \<Rightarrow> Inl e) of
        Inl e \<Rightarrow> Inl e
      | Inr json_output \<Rightarrow>
          Inr \<lparr>status_code = resp_status_code r, ok = resp_ok r, content = resp_content r,
               json_content = json_output, reason = resp_reason r\<rparr>)"
  using assms by (simp add: get_raw_request_def Let_def)

lemma call_api_raw_sent:
  "snd (call_api_raw self session url method params data) =
     snd (get_raw_request self session url
            (if truthy_str method then the method else ''GET'') params data None)"
  by (simp add: call_api_raw_def Let_def split: prod.splits)

lemma call_api_sent:
  "snd (call_api self session url method params data) =
     snd (call_api_raw self session url method params data)"
  by (simp add: call_api_def Let_def split: prod.splits)

lemma call_api_raw_response:
  assumes "snd (call_api_raw self session url method params data) = [req]"
    and "session req = Inr r"
    and "resp_json r = Decoded body \<or> resp_json r = ValueError \<and> body = JNull"
  shows "fst (call_api_raw self session url method params data) =
     Inr \<lparr>status_code = resp_status_code r, ok = resp_ok r, content = resp_content r,
          json_content = body, reason = resp_reason r\<rparr>"
proof -
  let ?m = "if truthy_str method then the method else ''GET''"
  from assms(1) have s: "snd (get_raw_request self session url ?m params data None) = [req]"
    by (simp add: call_api_raw_sent)
  have g: "fst (get_raw_request self session url ?m params data None) =
     Inr \<lparr>status_code = resp_status_code r, ok = resp_ok r, content = resp_content r,
          json_content = body, reason = resp_reason r\<rparr>"
    using assms(3) by (auto simp add: get_raw_request_response [OF s assms(2)])
  have "fst (call_api_raw self session url method params data) =
        (case fst (get_raw_request self session url ?m params data None) of
           Inl (Requests (ConnectionError err)) \<Rightarrow>
              Inl (PagureAPIException [Lit (''Cannot connect to url: `'' @ url @ ''`.'')]
                     (Some (ConnectionError err)) JNull JNull)
          | Inl e \<Rightarrow> Inl e
          | Inr response \<Rightarrow> Inr response)"
    unfolding call_api_raw_def Let_def by (simp only: split_beta fst_conv)
  then show ?thesis by (simp only: g sum.case)
qed

lemma call_api_response:
  assumes "snd (call_api self session url method params data) = [req]"
    and "session req = Inr r"
    and "resp_json r = Decoded body \<or> resp_json r = ValueError \<and> body = JNull"
  shows "call_api_raw self session url method params data =
     (Inr \<lparr>status_code = resp_status_code r, ok = resp_ok r, content = resp_content r,
          json_content = body, reason = resp_reason r\<rparr>, [req])"
  using assms call_api_raw_response [of self session url "method" "params" data req r body]
  by (simp add: call_api_sent prod_eq_iff)

lemma py_in_dict: "py_in k (JObj kvs) = Inr (map_of kvs k \<noteq> None)"
  by (simp add: map_of_eq_None_iff)

section \<open>The checked call\<close>




text \<open>
  C2, as amended. For every successful (2xx) response whose body decodes as JSON:
  when the decoded value is one that Python takes for true (a non-empty object, list or
  string, a non-zero number, \<open>true\<close>), \<open>call_api\<close> returns exactly that value; when it
  is an empty or false value (\<open>{}\<close>, \<open>[]\<close>, \<open>""\<close>, \<open>0\<close>, \<open>false\<close>, \<open>null\<close>),
  \<open>call_api\<close> raises the decode-failure exception.
\<close>

theorem call_api_returns_json:
  assumes "snd (call_api self session url method params data) = [req]"
    and "session req = Inr r"
    and "requests_ok r"
    and "200 \<le> resp_status_code r" and "resp_status_code r < 300"
    and "resp_json r = Decoded j"
  shows "fst (call_api self session url method params data) =
     (if truthy j then Inr j
      else Inl (PagureAPIException [Lit ''Error while decoding JSON: {0}''] None JNull JNull))"
proof -
  from assms(6) have "resp_json r = Decoded j \<or> resp_json r = ValueError \<and> j = JNull"
    by simp
  note resp = call_api_response [OF assms(1,2) this]
  from assms(3-5) show ?thesis by (simp add: call_api_def resp requests_ok_def)
qed

theorem call_api_returns_json_witness:
  "fst (call_api (PagureService_init (Some ''t0k3n'') ''https://pagure.io'' False False)
          (\<lambda>_. Inr \<lparr>resp_status_code = 200, resp_ok = True, resp_content = ''{...}'',
                      resp_json = Decoded (JObj [(''version'', JStr ''0.29'')]),
                      resp_reason = ''OK''\<rparr>)
          ''https://pagure.io/api/0/version'' None JNull JNull) =
     Inr (JObj [(''version'', JStr ''0.29'')])"
  using call_api_returns_json
    [of "PagureService_init (Some ''t0k3n'') ''https://pagure.io'' False False"
        "\<lambda>_. Inr \<lparr>resp_status_code = 200, resp_ok = True, resp_content = ''{...}'',
                      resp_json = Decoded (JObj [(''version'', JStr ''0.29'')]),
                      resp_reason = ''OK''\<rparr>"
        "''https://pagure.io/api/0/version''" None JNull JNull
        "\<lparr>req_method = ''GET'', req_url = ''https://pagure.io/api/0/version'',
          req_params = JNull, req_headers = [(''Authorization'', ''token t0k3n'')],
          req_data = JNull, req_verify = True\<rparr>"
        "\<lparr>resp_status_code = 200, resp_ok = True, resp_content = ''{...}'',
                      resp_json = Decoded (JObj [(''version'', JStr ''0.29'')]),
                      resp_reason = ''OK''\<rparr>"
        "JObj [(''version'', JStr ''0.29'')]"]
  by (simp add: call_api_sent call_api_raw_sent get_raw_request_sent PagureService_init_def
        requests_ok_def)

text \<open>
  A 200 response whose body is the empty JSON object is not returned: the
  decode-failure exception is raised.
\<close>

theorem call_api_returns_json_counterexample:
  "fst (call_api (PagureService_init (Some ''t0k3n'') ''https://pagure.io'' False False)
          (\<lambda>_. Inr \<lparr>resp_status_code = 200, resp_ok = True, resp_content = ''{}'',
                      resp_json = Decoded (JObj []), resp_reason = ''OK''\<rparr>)
          ''https://pagure.io/api/0/error_codes'' None JNull JNull) \<noteq> Inr (JObj [])"
  by (simp add: call_api_def call_api_raw_def get_raw_request_def PagureService_init_def)




text \<open>
  The error branch of \<open>call_api\<close>: a response that is not ok, not a 404, and whose JSON
  object has an \<open>error\<close> field.
\<close>

lemma call_api_not_ok:
  assumes "snd (call_api self session url method params data) = [req]"
    and "session req = Inr r"
    and "\<not> resp_ok r"
    and "resp_status_code r \<noteq> 404"
    and "resp_json r = Decoded (JObj kvs)"
    and "map_of kvs ''error'' = Some error_msg"
  shows "fst (call_api self session url method params data) =
     Inl (PagureAPIException
            [Lit (''Pagure API returned an error when calling `'' @ url @ ''`: ''), Fmt error_msg]
            None error_msg (JObj kvs))"
proof -
  from assms(5)
  have "resp_json r = Decoded (JObj kvs) \<or> resp_json r = ValueError \<and> JObj kvs = JNull"
    by simp
  note resp = call_api_response [OF assms(1,2) this]
  from assms(6) have "kvs \<noteq> []" by auto
  with assms(3-6) show ?thesis
    by (simp add: call_api_def resp py_in_dict del: py_in.simps)
qed




section \<open>URL construction\<close>

lemma present_segments: "map the (filter (\<lambda>x. x \<noteq> None) (map Some ss)) = ss"
  by (induction ss) simp_all

text \<open>
  C6, as amended. \<open>get_api_url\<close> joins its segments with \<open>/\<close> after
  \<open>{instance_url}/api/0/\<close>, or after \<open>{instance_url}/\<close> when the API part is not
  asked for; a segment that is \<open>None\<close> is skipped, wherever it stands; for
  \<open>["a", None, "b"]\<close> the result is \<open>{instance_url}/api/0/a/b\<close>. An empty string
  is a segment like any other.
\<close>

theorem get_api_url_join:
  "get_api_url self (map Some ss) True = instance_url self @ ''/api/0/'' @ py_join ''/'' ss \<and>
   get_api_url self (map Some ss) False = instance_url self @ ''/'' @ py_join ''/'' ss \<and>
   get_api_url self (xs @ None # ys) b = get_api_url self (xs @ ys) b \<and>
   get_api_url self [Some ''a'', None, Some ''b''] True = instance_url self @ ''/api/0/a/b''"
  by (simp add: get_api_url_def api_url_def present_segments)

text \<open>
  An empty segment is not skipped: it leaves two slashes in a row.
\<close>

theorem get_api_url_empty_segment_counterexample:
  "get_api_url (PagureService_init None ''https://pagure.io'' False False)
     [Some ''a'', Some '''', Some ''b''] True = ''https://pagure.io/api/0/a//b''"
  by (simp add: get_api_url_def api_url_def PagureService_init_def)

section \<open>Token rotation\<close>

text \<open>
  C7. After \<open>change_token\<close> the stored header is exactly
  \<open>{"Authorization": "token " + tok}\<close>, and the requests sent afterwards by the raw call
  and by the checked call carry that header and nothing of the previous one.
\<close>

theorem change_token_header:
  "header (change_token self tok) = [(''Authorization'', ''token '' @ tok)] \<and>
   map req_headers (snd (get_raw_request (change_token self tok) session url m params data None)) =
     [[(''Authorization'', ''token '' @ tok)]] \<and>
   map req_headers (snd (call_api (change_token self tok) session url m' params data)) =
     [[(''Authorization'', ''token '' @ tok)]]"
  by (simp add: change_token_def call_api_sent call_api_raw_sent get_raw_request_sent)

section \<open>The raw call\<close>




section \<open>Project creation\<close>

text \<open>
  \<open>project_create\<close> sends one POST request to \<open>{instance_url}/api/0/new\<close>, and
  handles what the checked call returns or raises.
\<close>

lemma project_create_sent:
  "snd (project_create self session repo namespace description) =
   [\<lparr>req_method = ''POST'', req_url = instance_url self @ ''/api/0/new'', req_params = JNull,
     req_headers = header self,
     req_data = JObj (
        let parameters = [(''name'', JStr repo),
                        (''description'', case description of None \<Rightarrow> JNull | Some d \<Rightarrow> JStr d),
                        (''wait'', JBool True)];
          parameters = (if \<not> truthy_str description
                        then AList.update ''description'' (JStr repo) parameters
                        else parameters) in (if truthy_str namespace
                        then AList.update ''namespace'' (JStr (the namespace)) parameters
                        else parameters)),
     req_verify = (\<not> insecure self)\<rparr>]"
  by (simp add: project_create_def Let_def split_beta call_api_sent call_api_raw_sent get_raw_request_sent
       get_api_url_def api_url_def)

lemma project_create_call:
  "project_create self session repo namespace description =
     (let parameters = [(''name'', JStr repo),
                        (''description'', case description of None \<Rightarrow> JNull | Some d \<Rightarrow> JStr d),
                        (''wait'', JBool True)];
          parameters = (if \<not> truthy_str description
                        then AList.update ''description'' (JStr repo) parameters
                        else parameters);
          parameters = (if truthy_str namespace
                        then AList.update ''namespace'' (JStr (the namespace)) parameters
                        else parameters);
          called = call_api self session (instance_url self @ ''/api/0/new'') (Some ''POST'') JNull
                     (JObj parameters)
      in (case fst called of
            Inl (PagureAPIException m c perr presp) \<Rightarrow>
              if truthy presp then
                (case getitem_str presp ''errors'' of
                   Inl e \<Rightarrow> Inl e
                 | Inr errors \<Rightarrow>
                     (case getitem_str errors ''namespace'' of
                        Inl e \<Rightarrow> Inl e
                      | Inr ns \<Rightarrow>
                          (case getitem_int ns 0 of
                             Inl e \<Rightarrow> Inl e
                           | Inr first \<Rightarrow>
                               if first = JStr ''Not a valid choice'' then
                                 Inl (OgrException
                                        [Lit (''Cannot create project in given namespace ('' @
                                              (case namespace of None \<Rightarrow> ''None'' | Some n \<Rightarrow> n) @
                                              '').'')])
                               else Inl (PagureAPIException m c perr presp))))
              else Inl (PagureAPIException m c perr presp)
          | Inl e \<Rightarrow> Inl e
          | Inr _ \<Rightarrow>
              Inr \<lparr>project_repo = repo, project_namespace = namespace, project_service = self\<rparr>,
          snd called))"
  unfolding project_create_def get_api_url_def api_url_def Let_def
  by (simp add: split_beta)

text \<open>
  The namespace case: an API error whose body has an \<open>error\<close> field, so that the
  exception carries the body, and \<open>"Not a valid choice"\<close> as first message of
  \<open>errors.namespace\<close> is raised again as \<open>OgrException\<close>.
\<close>

lemma project_create_invalid_namespace:
  assumes "snd (project_create self session repo namespace description) = [req]"
    and "session req = Inr r"
    and "\<not> resp_ok r" and "resp_status_code r \<noteq> 404"
    and "resp_json r = Decoded (JObj kvs)"
    and "map_of kvs ''error'' = Some error_msg"
    and "map_of kvs ''errors'' = Some (JObj errs)"
    and "map_of errs ''namespace'' = Some (JArr (JStr ''Not a valid choice'' # rest))"
  shows "fst (project_create self session repo namespace description) =
     Inl (OgrException [Lit (''Cannot create project in given namespace ('' @
            (case namespace of None \<Rightarrow> ''None'' | Some n \<Rightarrow> n) @ '').'')])"
proof -
  define parameters where "parameters =
     (let parameters = [(''name'', JStr repo),
                        (''description'', case description of None \<Rightarrow> JNull | Some d \<Rightarrow> JStr d),
                        (''wait'', JBool True)];
          parameters = (if \<not> truthy_str description
                        then AList.update ''description'' (JStr repo) parameters
                        else parameters)
      in (if truthy_str namespace
          then AList.update ''namespace'' (JStr (the namespace)) parameters
          else parameters))"
  let ?call = "call_api self session (instance_url self @ ''/api/0/new'') (Some ''POST'') JNull
                 (JObj parameters)"
  have p: "project_create self session repo namespace description =
        (case fst ?call of
            Inl (PagureAPIException m c perr presp) \<Rightarrow>
              if truthy presp then
                (case getitem_str presp ''errors'' of
                   Inl e \<Rightarrow> Inl e
                 | Inr errors \<Rightarrow>
                     (case getitem_str errors ''namespace'' of
                        Inl e \<Rightarrow> Inl e
                      | Inr ns \<Rightarrow>
                          (case getitem_int ns 0 of
                             Inl e \<Rightarrow> Inl e
                           | Inr first \<Rightarrow>
                               if first = JStr ''Not a valid choice'' then
                                 Inl (OgrException
                                        [Lit (''Cannot create project in given namespace ('' @
                                              (case namespace of None \<Rightarrow> ''None'' | Some n \<Rightarrow> n) @
                                              '').'')])
                               else Inl (PagureAPIException m c perr presp))))
              else Inl (PagureAPIException m c perr presp)
          | Inl e \<Rightarrow> Inl e
          | Inr _ \<Rightarrow>
              Inr \<lparr>project_repo = repo, project_namespace = namespace, project_service = self\<rparr>,
         snd ?call)"
    unfolding project_create_call parameters_def Let_def ..
  from assms(1) have s: "snd ?call = [req]"
    by (simp only: p snd_conv)
  from assms(6) have ne: "kvs \<noteq> []" by auto
  have c: "fst ?call = Inl (PagureAPIException
            [Lit (''Pagure API returned an error when calling `'' @
                  (instance_url self @ ''/api/0/new'') @ ''`: ''), Fmt error_msg]
            None error_msg (JObj kvs))"
    by (rule call_api_not_ok [OF s assms(2-6)])
  show ?thesis
    unfolding p fst_conv c using ne assms(7,8) by (simp add: seq_index_def)
qed

text \<open>
  C5. The handler reads \<open>ex.pagure_response["errors"]["namespace"][0]\<close> of every API
  error that carries a response body. For the body of an invalid-token error, which has
  no \<open>errors\<close> field, the lookup raises \<open>KeyError\<close>, and the original exception is
  not propagated.
\<close>

theorem project_create_key_error:
  "fst (project_create (PagureService_init (Some ''t0k3n'') ''https://pagure.io'' False False)
          (\<lambda>_. Inr \<lparr>resp_status_code = 401, resp_ok = False, resp_content = ''{...}'',
                      resp_json = Decoded (JObj [(''error'', JStr ''Invalid or expired token''),
                                              (''error_code'', JStr ''EINVALIDTOK'')]),
                      resp_reason = ''UNAUTHORIZED''\<rparr>)
          ''new-ogr-testing-repo'' None None) = Inl (KeyError (JStr ''errors''))"
  by (simp add: project_create_def call_api_def call_api_raw_def get_raw_request_def
        PagureService_init_def get_api_url_def api_url_def)

text \<open>
  C10, as amended. When the description argument is absent or empty, the creation
  request is sent with the repository name as its \<open>description\<close> parameter; the
  description sent is then empty only when the repository name is.
\<close>

theorem project_create_description:
  assumes "\<not> truthy_str description"
  shows "map (\<lambda>req. getitem_str (req_data req) ''description'')
           (snd (project_create self session repo namespace description)) = [Inr (JStr repo)]"
  using assms by (simp add: project_create_sent Let_def)

theorem project_create_description_witness:
  "map (\<lambda>req. getitem_str (req_data req) ''description'')
     (snd (project_create (PagureService_init (Some ''t0k3n'') ''https://pagure.io'' False False)
             (\<lambda>_. Inl (ConnectionError ''unreachable'')) ''new-ogr-testing-repo''
             (Some ''packit-service'') (Some []))) =
   [Inr (JStr ''new-ogr-testing-repo'')]"
  using project_create_description
    [of "Some []" "PagureService_init (Some ''t0k3n'') ''https://pagure.io'' False False"
        "\<lambda>_. Inl (ConnectionError ''unreachable'')" "''new-ogr-testing-repo''"
        "Some ''packit-service''"]
  by simp

text \<open>
  With an empty repository name and no description, the description sent is empty.
\<close>

theorem project_create_description_counterexample:
  "map (\<lambda>req. getitem_str (req_data req) ''description'')
           (snd (project_create (PagureService_init (Some ''t0k3n'') ''https://pagure.io'' False False)
              (\<lambda>_. Inl (ConnectionError ''unreachable'')) '''' None None)) = [Inr (JStr '''')]"
  by (simp add: project_create_sent Let_def)

section \<open>The comment adapter\<close>

text \<open>
  C9. For a note that has \<open>body\<close>, \<open>author\<close> with a \<open>username\<close>,
  \<open>created_at\<close> and \<open>updated_at\<close>, \<open>_from_raw_comment\<close> raises nothing and leaves
  the comment object with exactly these four values, copied as they are, in \<open>comment\<close>,
  \<open>author\<close>, \<open>created\<close> and \<open>edited\<close>. So it fails only when one of them is
  missing.
\<close>

theorem from_raw_comment_copies:
  assumes "map_of raw ''body'' = Some body"
    and "map_of raw ''author'' = Some (JObj a)"
    and "map_of a ''username'' = Some username"
    and "map_of raw ''created_at'' = Some created_at"
    and "map_of raw ''updated_at'' = Some updated_at"
  shows "from_raw_comment self raw =
     (None, self\<lparr>raw_comment := Some raw, comment := body, author := username,
                 created := created_at, edited := updated_at\<rparr>)"
  using assms by (simp add: from_raw_comment_def getattr_def)

theorem from_raw_comment_copies_witness:
  "from_raw_comment \<lparr>raw_comment = None, comment = JNull, author = JNull, created = JNull, edited = JNull\<rparr>
     [(''id'', JInt 7), (''body'', JStr ''hi''), (''author'', JObj [(''id'', JInt 1), (''username'', JStr ''x'')]),
      (''created_at'', JStr ''T1''), (''updated_at'', JStr ''T2'')] =
   (None, \<lparr>raw_comment = Some [(''id'', JInt 7), (''body'', JStr ''hi''), (''author'', JObj [(''id'', JInt 1), (''username'', JStr ''x'')]),
      (''created_at'', JStr ''T1''), (''updated_at'', JStr ''T2'')],
     comment = JStr ''hi'', author = JStr ''x'', created = JStr ''T1'', edited = JStr ''T2''\<rparr>)"
  using from_raw_comment_copies
    [of "[(''id'', JInt 7), (''body'', JStr ''hi''), (''author'', JObj [(''id'', JInt 1), (''username'', JStr ''x'')]),
      (''created_at'', JStr ''T1''), (''updated_at'', JStr ''T2'')]" "JStr ''hi''"
      "[(''id'', JInt 1), (''username'', JStr ''x'')]" "JStr ''x''" "JStr ''T1''" "JStr ''T2''"
      "\<lparr>raw_comment = None, comment = JNull, author = JNull, created = JNull, edited = JNull\<rparr>"]
  by simp

end
